theory Spec2Isabelle
  imports Complex_Main
begin

unbundle bit_operations_syntax

section \<open>SPI temperature sensors: embedding of klippy/extras/spi\_temperature.py\<close>

text \<open>
  Conventions of the embedding.
  \<^item> Python integers are unbounded: they are \<open>int\<close>, and \<open>&\<close>, \<open>|\<close>, \<open><<\<close>, \<open>>>\<close> are
    \<open>AND\<close>, \<open>OR\<close>, \<open>push_bit\<close>, \<open>drop_bit\<close> on \<open>int\<close> (infinite two's complement, as in
    Python). A Python condition \<open>if x & m:\<close> is \<open>x AND m \<noteq> 0\<close>.
  \<^item> A finite Python float is idealised as its exact \<open>real\<close> value: rounding is not
    modelled. The multipliers 0.25 and 0.0078125 are powers of two, so on the concrete
    inputs evaluated below every intermediate value is exactly representable in
    binary64 and the idealisation changes nothing there.
  \<^item> Overflow is modelled where an argument of a call can cause it, in \<open>calc_adc\<close>: an
    operation whose result is out of the binary64 range gives an infinity, which later
    operations keep and \<open>int()\<close> refuses. Temperature arguments are finite floats; the
    resistances of a configuration are taken to be far from the binary64 limits, so the
    operations on them alone are exact.
  \<^item> \<open>raise\<close> is a value: a function that can raise returns \<open>py_exn + 'a\<close>, with \<open>Inl\<close>
    the exception.
\<close>

subsection \<open>Exceptions and Python primitives\<close>

datatype py_exn =
    SensorError string   \<comment> \<open>\<open>class error(Exception)\<close>, with its message\<close>
  | ZeroDivisionError    \<comment> \<open>float division by zero\<close>
  | ValueError           \<comment> \<open>\<open>math.sqrt\<close> of a negative number\<close>
  | OverflowError        \<comment> \<open>\<open>int()\<close> of an infinity, \<open>math.pow\<close> out of range\<close>

text \<open>
  A float that an operation of \<open>calc_adc\<close> produces is finite or an infinity (the sign of
  the infinity changes nothing below). No operation there produces a NaN from finite
  arguments.
\<close>

datatype pyfloat = Finite real | Infinite

text \<open>
  Binary64 rounds a result to an infinity from \<open>2^1024 - 2^970\<close> upwards in magnitude,
  half way between the largest finite float and \<open>2^1024\<close>.
\<close>

definition float_overflow :: "real \<Rightarrow> bool" where
  "float_overflow x = (2 ^ 1024 - 2 ^ 970 \<le> \<bar>x\<bar>)"

text \<open>The float that holds the result \<open>x\<close> of an operation on finite floats.\<close>

definition fl :: "real \<Rightarrow> pyfloat" where
  "fl x = (if float_overflow x then Infinite else Finite x)"

text \<open>
  An arithmetic operation \<open>f\<close> with one operand that may be an infinity, the other being
  finite (and not zero where \<open>f\<close> multiplies): an infinity stays one.
\<close>

definition float_op :: "(real \<Rightarrow> real) \<Rightarrow> pyfloat \<Rightarrow> pyfloat" where
  "float_op f v = (case v of Finite x \<Rightarrow> fl (f x) | Infinite \<Rightarrow> Infinite)"

text \<open>Truncation towards zero, which \<open>int(x)\<close> does on a finite float.\<close>

definition py_trunc :: "real \<Rightarrow> int" where
  "py_trunc x = (if 0 \<le> x then \<lfloor>x\<rfloor> else \<lceil>x\<rceil>)"

text \<open>\<open>int(x)\<close> on a float: it raises on an infinity.\<close>

definition py_int :: "pyfloat \<Rightarrow> py_exn + int" where
  "py_int v = (case v of Finite x \<Rightarrow> Inr (py_trunc x) | Infinite \<Rightarrow> Inl OverflowError)"

text \<open>
  \<open>math.pow(x, k)\<close>: it raises when the power of a finite \<open>x\<close> is out of range, and
  returns the infinity for an infinite \<open>x\<close>.
\<close>

definition py_pow :: "pyfloat \<Rightarrow> nat \<Rightarrow> py_exn + pyfloat" where
  "py_pow v k =
     (case v of
        Finite x \<Rightarrow> (if float_overflow (x ^ k) then Inl OverflowError else Inr (Finite (x ^ k)))
      | Infinite \<Rightarrow> Inr Infinite)"

text \<open>Float division \<open>a / b\<close> by a finite \<open>b\<close>, where \<open>a\<close> may be an infinity.\<close>

definition py_fdiv :: "pyfloat \<Rightarrow> real \<Rightarrow> py_exn + pyfloat" where
  "py_fdiv a b = (if b = 0 then Inl ZeroDivisionError else Inr (float_op (\<lambda>x. x / b) a))"

text \<open>Float division \<open>a / b\<close> of finite floats raises on a zero divisor.\<close>

definition py_div :: "real \<Rightarrow> real \<Rightarrow> py_exn + real" where
  "py_div a b = (if b = 0 then Inl ZeroDivisionError else Inr (a / b))"

text \<open>\<open>math.sqrt\<close> raises on a negative argument.\<close>

definition py_sqrt :: "real \<Rightarrow> py_exn + real" where
  "py_sqrt x = (if x < 0 then Inl ValueError else Inr (sqrt x))"

subsection \<open>Module constants\<close>

definition REPORT_TIME :: real where "REPORT_TIME = 0.300"

definition MAX31856_CR0_REG :: int where "MAX31856_CR0_REG = 0x00"
definition MAX31856_CR0_AUTOCONVERT :: int where "MAX31856_CR0_AUTOCONVERT = 0x80"
definition MAX31856_CR0_FILT50HZ :: int where "MAX31856_CR0_FILT50HZ = 0x01"
definition MAX31856_CR1_REG :: int where "MAX31856_CR1_REG = 0x01"
definition MAX31856_MASK_REG :: int where "MAX31856_MASK_REG = 0x02"
definition MAX31856_MASK_VOLTAGE_UNDER_OVER_FAULT :: int where
  "MAX31856_MASK_VOLTAGE_UNDER_OVER_FAULT = 0x02"
definition MAX31856_MASK_THERMOCOUPLE_OPEN_FAULT :: int where
  "MAX31856_MASK_THERMOCOUPLE_OPEN_FAULT = 0x01"

definition MAX31856_FAULT_CJRANGE :: int where "MAX31856_FAULT_CJRANGE = 0x80"
definition MAX31856_FAULT_TCRANGE :: int where "MAX31856_FAULT_TCRANGE = 0x40"
definition MAX31856_FAULT_CJHIGH :: int where "MAX31856_FAULT_CJHIGH = 0x20"
definition MAX31856_FAULT_CJLOW :: int where "MAX31856_FAULT_CJLOW = 0x10"
definition MAX31856_FAULT_TCHIGH :: int where "MAX31856_FAULT_TCHIGH = 0x08"
definition MAX31856_FAULT_TCLOW :: int where "MAX31856_FAULT_TCLOW = 0x04"
definition MAX31856_FAULT_OVUV :: int where "MAX31856_FAULT_OVUV = 0x02"
definition MAX31856_FAULT_OPEN :: int where "MAX31856_FAULT_OPEN = 0x01"

definition MAX31856_SCALE :: nat where "MAX31856_SCALE = 5"
definition MAX31856_MULT :: real where "MAX31856_MULT = 0.0078125"

definition MAX31855_SCALE :: nat where "MAX31855_SCALE = 18"
definition MAX31855_MULT :: real where "MAX31855_MULT = 0.25"

definition MAX6675_SCALE :: nat where "MAX6675_SCALE = 3"
definition MAX6675_MULT :: real where "MAX6675_MULT = 0.25"

definition MAX31865_CONFIG_REG :: int where "MAX31865_CONFIG_REG = 0x00"
definition MAX31865_CONFIG_BIAS :: int where "MAX31865_CONFIG_BIAS = 0x80"
definition MAX31865_CONFIG_MODEAUTO :: int where "MAX31865_CONFIG_MODEAUTO = 0x40"
definition MAX31865_CONFIG_3WIRE :: int where "MAX31865_CONFIG_3WIRE = 0x10"
definition MAX31865_CONFIG_FAULTCLEAR :: int where "MAX31865_CONFIG_FAULTCLEAR = 0x02"
definition MAX31865_CONFIG_FILT50HZ :: int where "MAX31865_CONFIG_FILT50HZ = 0x01"

definition VAL_A :: real where "VAL_A = 0.00390830"
definition VAL_B :: real where "VAL_B = 0.0000005775"
definition VAL_C :: real where "VAL_C = - 0.00000000000418301"
definition VAL_ADC_MAX :: real where "VAL_ADC_MAX = 32768.0"

subsection \<open>MAX31856 thermocouple\<close>

text \<open>
  The instance attributes set by \<open>MAX31856.__init__\<close>. The attribute \<open>use_50Hz_filter\<close>
  is named after its configuration option here, since MAX31865 has an attribute of the
  same name.
\<close>

record max31856_config =
  tc_type :: int
  tc_use_50Hz_filter :: bool
  average_count :: int

definition MAX31856_check_faults :: "int \<Rightarrow> py_exn + unit" where
  "MAX31856_check_faults fault =
     (if fault AND MAX31856_FAULT_CJRANGE \<noteq> 0 then
        Inl (SensorError ''Max31856: Cold Junction Range Fault'')
      else if fault AND MAX31856_FAULT_TCRANGE \<noteq> 0 then
        Inl (SensorError ''Max31856: Thermocouple Range Fault'')
      else if fault AND MAX31856_FAULT_CJHIGH \<noteq> 0 then
        Inl (SensorError ''Max31856: Cold Junction High Fault'')
      else if fault AND MAX31856_FAULT_CJLOW \<noteq> 0 then
        Inl (SensorError ''Max31856: Cold Junction Low Fault'')
      else if fault AND MAX31856_FAULT_TCHIGH \<noteq> 0 then
        Inl (SensorError ''Max31856: Thermocouple High Fault'')
      else if fault AND MAX31856_FAULT_TCLOW \<noteq> 0 then
        Inl (SensorError ''Max31856: Thermocouple Low Fault'')
      else if fault AND MAX31856_FAULT_OVUV \<noteq> 0 then
        Inl (SensorError ''Max31856: Over/Under Voltage Fault'')
      else if fault AND MAX31856_FAULT_OPEN \<noteq> 0 then
        Inl (SensorError ''Max31856: Thermocouple Open Fault'')
      else Inr ())"

definition MAX31856_calc_temp :: "int \<Rightarrow> real" where
  "MAX31856_calc_temp adc0 =
     (let adc = drop_bit MAX31856_SCALE adc0;
          adc = (if adc AND 0x40000 \<noteq> 0 then ((adc AND 0x3FFFF) + 1) * (- 1) else adc)
      in MAX31856_MULT * real_of_int adc)"

definition MAX31856_calc_adc :: "real \<Rightarrow> py_exn + int" where
  "MAX31856_calc_adc temp =
     (case py_int (float_op (\<lambda>q. q + 0.5) (fl (temp / MAX31856_MULT))) of
        Inl e \<Rightarrow> Inl e
      | Inr adc \<Rightarrow> Inr (push_bit MAX31856_SCALE adc))"

definition MAX31856_get_configs :: "max31856_config \<Rightarrow> int list" where
  "MAX31856_get_configs self =
     (let cmds = [];
          value0 = MAX31856_CR0_AUTOCONVERT;
          value0 = (if tc_use_50Hz_filter self then value0 OR MAX31856_CR0_FILT50HZ else value0);
          cmds = cmds @ [0x80 + MAX31856_CR0_REG];
          cmds = cmds @ [value0];
          value1 = tc_type self;
          value1 = value1 OR average_count self;
          cmds = cmds @ [0x80 + MAX31856_CR1_REG];
          cmds = cmds @ [value1];
          value2 = MAX31856_MASK_VOLTAGE_UNDER_OVER_FAULT OR MAX31856_MASK_THERMOCOUPLE_OPEN_FAULT;
          cmds = cmds @ [0x80 + MAX31856_MASK_REG];
          cmds = cmds @ [value2]
      in cmds)"

subsection \<open>MAX31855 thermocouple\<close>

definition MAX31855_check_faults :: "int \<Rightarrow> py_exn + unit" where
  "MAX31855_check_faults fault = Inr ()"

definition MAX31855_calc_temp :: "int \<Rightarrow> py_exn + real" where
  "MAX31855_calc_temp adc0 =
     (if adc0 AND 0x1 \<noteq> 0 then Inl (SensorError ''MAX31855 : Open Circuit'')
      else if adc0 AND 0x2 \<noteq> 0 then Inl (SensorError ''MAX31855 : Short to GND'')
      else if adc0 AND 0x4 \<noteq> 0 then Inl (SensorError ''MAX31855 : Short to Vcc'')
      else
        let adc = drop_bit MAX31855_SCALE adc0;
            adc = (if adc AND 0x2000 \<noteq> 0 then ((adc AND 0x1FFF) + 1) * (- 1) else adc)
        in Inr (MAX31855_MULT * real_of_int adc))"

definition MAX31855_calc_adc :: "real \<Rightarrow> py_exn + int" where
  "MAX31855_calc_adc temp =
     (case py_int (float_op (\<lambda>q. q + 0.5) (fl (temp / MAX31855_MULT))) of
        Inl e \<Rightarrow> Inl e
      | Inr adc \<Rightarrow> Inr (push_bit MAX31855_SCALE adc))"

definition MAX31855_get_configs :: "int list" where
  "MAX31855_get_configs = []"

subsection \<open>MAX6675 thermocouple\<close>

definition MAX6675_check_faults :: "int \<Rightarrow> py_exn + unit" where
  "MAX6675_check_faults fault = Inr ()"

definition MAX6675_calc_temp :: "int \<Rightarrow> py_exn + real" where
  "MAX6675_calc_temp adc0 =
     (if adc0 AND 0x02 \<noteq> 0 then Inl (SensorError ''Max6675 : Device ID error'')
      else if adc0 AND 0x04 \<noteq> 0 then Inl (SensorError ''Max6675 : Thermocouple Open Fault'')
      else
        let adc = drop_bit MAX6675_SCALE adc0;
            adc = (if adc AND 0x2000 \<noteq> 0 then ((adc AND 0x1FFF) + 1) * (- 1) else adc)
        in Inr (MAX6675_MULT * real_of_int adc))"

definition MAX6675_calc_adc :: "real \<Rightarrow> py_exn + int" where
  "MAX6675_calc_adc temp =
     (case py_int (float_op (\<lambda>q. q + 0.5) (fl (temp / MAX6675_MULT))) of
        Inl e \<Rightarrow> Inl e
      | Inr adc \<Rightarrow> Inr (push_bit MAX6675_SCALE adc))"

definition MAX6675_get_configs :: "int list" where
  "MAX6675_get_configs = []"

subsection \<open>MAX31865 (RTD sensor)\<close>

text \<open>
  The instance attributes set by \<open>MAX31865.__init__\<close>: \<open>rtd_nominal_r\<close> is read with
  \<open>getint\<close> (no bounds), \<open>reference_r\<close> with \<open>getfloat(..., above=0.)\<close>.
\<close>

record max31865_config =
  rtd_nominal_r :: int
  reference_r :: real
  num_wires :: int
  rtd_use_50Hz_filter :: bool

definition MAX31865_check_faults :: "int \<Rightarrow> py_exn + unit" where
  "MAX31865_check_faults fault =
     (if fault AND 0x80 \<noteq> 0 then
        Inl (SensorError ''Max31865 RTD input is disconnected'')
      else if fault AND 0x40 \<noteq> 0 then
        Inl (SensorError ''Max31865 RTD input is shorted'')
      else if fault AND 0x20 \<noteq> 0 then
        Inl (SensorError ''Max31865 VREF- is greater than 0.85 * VBIAS, FORCE- open'')
      else if fault AND 0x10 \<noteq> 0 then
        Inl (SensorError ''Max31865 VREF- is less than 0.85 * VBIAS, FORCE- open'')
      else if fault AND 0x08 \<noteq> 0 then
        Inl (SensorError ''Max31865 VRTD- is less than 0.85 * VBIAS, FORCE- open'')
      else if fault AND 0x04 \<noteq> 0 then
        Inl (SensorError ''Max31865 Overvoltage or undervoltage fault'')
      else if fault AND 0x03 \<noteq> 0 then
        Inl (SensorError ''Max31865 Unspecified error'')
      else Inr ())"

text \<open>
  The numerator, with its \<open>math.sqrt\<close>, is evaluated before the divisor, and the
  division last.
\<close>

definition MAX31865_calc_temp :: "max31865_config \<Rightarrow> int \<Rightarrow> py_exn + real" where
  "MAX31865_calc_temp self adc0 =
     (let adc = drop_bit 1 adc0;
          n = real_of_int (rtd_nominal_r self);
          R_rtd = (reference_r self * real_of_int adc) / VAL_ADC_MAX
      in case py_sqrt ((n * n * VAL_A * VAL_A) - (4 * n * VAL_B * (n - R_rtd))) of
           Inl e \<Rightarrow> Inl e
         | Inr sq \<Rightarrow> py_div ((((- 1) * n) * VAL_A) + sq) (2 * n * VAL_B))"

definition MAX31865_calc_adc :: "max31865_config \<Rightarrow> real \<Rightarrow> py_exn + int" where
  "MAX31865_calc_adc self temp =
     (let n = real_of_int (rtd_nominal_r self);
          R_rtd = fl (temp * (2 * n * VAL_B))
      in case py_pow (float_op (\<lambda>r. r + (n * VAL_A)) R_rtd) 2 of
           Inl e \<Rightarrow> Inl e
         | Inr R_rtd \<Rightarrow>
            (let R_rtd = float_op (\<lambda>r. (- 1) * r)
                           (float_op (\<lambda>r. r - (n * n * VAL_A * VAL_A)) R_rtd)
             in case py_fdiv R_rtd (4 * n * VAL_B) of
                  Inl e \<Rightarrow> Inl e
                | Inr R_rtd \<Rightarrow>
                   (let R_rtd = float_op (\<lambda>r. r + n) (float_op (\<lambda>r. (- 1) * r) R_rtd)
                    in case py_fdiv (float_op (\<lambda>r. r * VAL_ADC_MAX) R_rtd)
                              (reference_r self) of
                         Inl e \<Rightarrow> Inl e
                       | Inr q \<Rightarrow>
                          (case py_int (float_op (\<lambda>r. r + 0.5) q) of
                             Inl e \<Rightarrow> Inl e
                           | Inr adc \<Rightarrow> Inr (push_bit 1 adc)))))"

definition MAX31865_get_configs :: "max31865_config \<Rightarrow> int list" where
  "MAX31865_get_configs self =
     (let value0 = MAX31865_CONFIG_BIAS OR MAX31865_CONFIG_MODEAUTO OR MAX31865_CONFIG_FAULTCLEAR;
          value0 = (if rtd_use_50Hz_filter self then value0 OR MAX31865_CONFIG_FILT50HZ else value0);
          value0 = (if num_wires self = 3 then value0 OR MAX31865_CONFIG_3WIRE else value0);
          cmd = 0x80 + MAX31865_CONFIG_REG
      in [cmd, value0])"

subsection \<open>SensorBase: dispatch and the session\<close>

text \<open>The four subclasses of \<open>SensorBase\<close>, each with its instance attributes.\<close>

datatype chip =
    MAX31855
  | MAX31856 max31856_config
  | MAX31865 max31865_config
  | MAX6675

fun calc_temp :: "chip \<Rightarrow> int \<Rightarrow> py_exn + real" where
  "calc_temp MAX31855 adc = MAX31855_calc_temp adc"
| "calc_temp (MAX31856 cfg) adc = Inr (MAX31856_calc_temp adc)"
| "calc_temp (MAX31865 cfg) adc = MAX31865_calc_temp cfg adc"
| "calc_temp MAX6675 adc = MAX6675_calc_temp adc"

fun check_faults :: "chip \<Rightarrow> int \<Rightarrow> py_exn + unit" where
  "check_faults MAX31855 fault = MAX31855_check_faults fault"
| "check_faults (MAX31856 cfg) fault = MAX31856_check_faults fault"
| "check_faults (MAX31865 cfg) fault = MAX31865_check_faults fault"
| "check_faults MAX6675 fault = MAX6675_check_faults fault"

fun calc_adc :: "chip \<Rightarrow> real \<Rightarrow> py_exn + int" where
  "calc_adc MAX31855 temp = MAX31855_calc_adc temp"
| "calc_adc (MAX31856 cfg) temp = MAX31856_calc_adc temp"
| "calc_adc (MAX31865 cfg) temp = MAX31865_calc_adc cfg temp"
| "calc_adc MAX6675 temp = MAX6675_calc_adc temp"

fun get_configs :: "chip \<Rightarrow> int list" where
  "get_configs MAX31855 = MAX31855_get_configs"
| "get_configs (MAX31856 cfg) = MAX31856_get_configs cfg"
| "get_configs (MAX31865 cfg) = MAX31865_get_configs cfg"
| "get_configs MAX6675 = MAX6675_get_configs"

text \<open>
  The attributes of a \<open>SensorBase\<close> instance that the session reads or writes after
  construction. \<open>has_callback\<close> is \<open>self._callback is not None\<close>.
\<close>

record sensor =
  kind :: chip
  has_callback :: bool
  min_sample_value :: int
  max_sample_value :: int
  report_clock :: int

text \<open>
  The two clock conversions of the \<open>mcu\<close> object that \<open>_handle_spi_response\<close> calls;
  they live outside this module and are parameters here.
\<close>

record mcu =
  clock32_to_clock64 :: "int \<Rightarrow> int"
  clock_to_print_time :: "int \<Rightarrow> real"

text \<open>The \<open>thermocouple_result\<close> message.\<close>

record params =
  p_value :: int
  p_fault :: int
  p_next_clock :: int

definition setup_minmax :: "sensor \<Rightarrow> real \<Rightarrow> real \<Rightarrow> py_exn + sensor" where
  "setup_minmax self min_temp max_temp =
     (case calc_adc (kind self) min_temp of
        Inl e \<Rightarrow> Inl e
      | Inr a \<Rightarrow>
         (case calc_adc (kind self) max_temp of
            Inl e \<Rightarrow> Inl e
          | Inr b \<Rightarrow>
             (let adc_range = [a, b]
              in Inr (self\<lparr>min_sample_value := Min (set adc_range),
                           max_sample_value := Max (set adc_range)\<rparr>))))"

definition setup_callback :: "sensor \<Rightarrow> sensor" where
  "setup_callback self = self\<lparr>has_callback := True\<rparr>"

text \<open>
  \<open>_handle_spi_response\<close> returns three things: whether it raised, the session
  afterwards, and the calls it made to the registered callback, each with its
  arguments \<open>(last_read_time, temp)\<close>.
\<close>

definition handle_spi_response ::
  "mcu \<Rightarrow> sensor \<Rightarrow> params \<Rightarrow> (py_exn + unit) \<times> sensor \<times> (real \<times> real) list" where
  "handle_spi_response m self p =
     (let last_value = p_value p;
          next_clock = clock32_to_clock64 m (p_next_clock p);
          last_read_clock = next_clock - report_clock self;
          last_read_time = clock_to_print_time m last_read_clock
      in case calc_temp (kind self) last_value of
           Inl e \<Rightarrow> (Inl e, self, [])
         | Inr temp \<Rightarrow>
            (case check_faults (kind self) (p_fault p) of
               Inl e \<Rightarrow> (Inl e, self, [])
             | Inr u \<Rightarrow>
                (if has_callback self then (Inr (), self, [(last_read_time, temp)])
                 else (Inr (), self, []))))"

subsection \<open>The chip table of the specification\<close>

text \<open>
  These definitions follow the words of the specification, not the code: its table of
  shift, sign-bit mask (after the shift) and multiplier for the two's-complement chips,
  and its sign-fix rule "if the sign-bit mask is set in the shifted value, the true
  magnitude is \<open>-(((value & (mask-1)) + 1))\<close>; otherwise the shifted value".
\<close>

fun spec_table :: "chip \<Rightarrow> (nat \<times> int \<times> real) option" where
  "spec_table MAX31855 = Some (18, 0x2000, 0.25)"
| "spec_table MAX6675 = Some (3, 0x2000, 0.25)"
| "spec_table (MAX31856 cfg) = Some (5, 0x40000, 0.0078125)"
| "spec_table (MAX31865 cfg) = None"

definition spec_magnitude :: "int \<Rightarrow> int \<Rightarrow> int" where
  "spec_magnitude sign_mask v =
     (if v AND sign_mask \<noteq> 0 then - ((v AND (sign_mask - 1)) + 1) else v)"

text \<open>
  The fault bits of a sample, as the specification's table places them: bits 0 to 2 of
  the raw value for MAX31855, bits 1 and 2 of the raw value for MAX6675, the fault byte
  of the message for MAX31856 and MAX31865.
\<close>

fun fault_bits :: "chip \<Rightarrow> params \<Rightarrow> int" where
  "fault_bits MAX31855 p = p_value p AND 0x7"
| "fault_bits MAX6675 p = p_value p AND 0x6"
| "fault_bits (MAX31856 cfg) p = p_fault p AND 0xFF"
| "fault_bits (MAX31865 cfg) p = p_fault p AND 0xFF"

subsection \<open>Sample values\<close>

definition demo_mcu :: mcu where
  "demo_mcu = \<lparr>clock32_to_clock64 = (\<lambda>c. c),
                clock_to_print_time = (\<lambda>c. real_of_int c / 16000000)\<rparr>"

definition demo_sensor :: "chip \<Rightarrow> sensor" where
  "demo_sensor c = \<lparr>kind = c, has_callback = True, min_sample_value = 0,
     max_sample_value = 0, report_clock = 4800000\<rparr>"

definition pt100 :: max31865_config where
  "pt100 = \<lparr>rtd_nominal_r = 100, reference_r = 430, num_wires = 2,
            rtd_use_50Hz_filter = False\<rparr>"

definition type_k :: max31856_config where
  "type_k = \<lparr>tc_type = 3, tc_use_50Hz_filter = False, average_count = 0\<rparr>"

subsection \<open>Well-formed configurations\<close>

text \<open>
  A configuration is physically meaningful when the RTD's nominal resistance and the
  reference resistance are positive. The constructor enforces \<open>reference_r > 0\<close>
  (\<open>above=0.\<close>); \<open>rtd_nominal_r\<close> is read without a bound. With \<open>rtd_nominal_r = 0\<close>
  both MAX31865 conversions raise \<open>ZeroDivisionError\<close>. The thermocouple chips have
  no such option.
\<close>

fun config_ok :: "chip \<Rightarrow> bool" where
  "config_ok (MAX31865 cfg) = (0 < rtd_nominal_r cfg \<and> 0 < reference_r cfg)"
| "config_ok MAX31855 = True"
| "config_ok (MAX31856 cfg) = True"
| "config_ok MAX6675 = True"

subsection \<open>Fault tables\<close>

text \<open>
  The fault bits each chip's code tests, in the order it tests them, each with the
  message of the error it raises. The last MAX31865 test, \<open>fault & 0x03\<close>, is listed as
  its two bits. \<open>first_fault\<close> is the message of the first entry whose bit is set.
\<close>

fun fault_table :: "chip \<Rightarrow> (int \<times> string) list" where
  "fault_table MAX31855 =
     [(0x1, ''MAX31855 : Open Circuit''),
      (0x2, ''MAX31855 : Short to GND''),
      (0x4, ''MAX31855 : Short to Vcc'')]"
| "fault_table MAX6675 =
     [(0x02, ''Max6675 : Device ID error''),
      (0x04, ''Max6675 : Thermocouple Open Fault'')]"
| "fault_table (MAX31856 cfg) =
     [(0x80, ''Max31856: Cold Junction Range Fault''),
      (0x40, ''Max31856: Thermocouple Range Fault''),
      (0x20, ''Max31856: Cold Junction High Fault''),
      (0x10, ''Max31856: Cold Junction Low Fault''),
      (0x08, ''Max31856: Thermocouple High Fault''),
      (0x04, ''Max31856: Thermocouple Low Fault''),
      (0x02, ''Max31856: Over/Under Voltage Fault''),
      (0x01, ''Max31856: Thermocouple Open Fault'')]"
| "fault_table (MAX31865 cfg) =
     [(0x80, ''Max31865 RTD input is disconnected''),
      (0x40, ''Max31865 RTD input is shorted''),
      (0x20, ''Max31865 VREF- is greater than 0.85 * VBIAS, FORCE- open''),
      (0x10, ''Max31865 VREF- is less than 0.85 * VBIAS, FORCE- open''),
      (0x08, ''Max31865 VRTD- is less than 0.85 * VBIAS, FORCE- open''),
      (0x04, ''Max31865 Overvoltage or undervoltage fault''),
      (0x02, ''Max31865 Unspecified error''),
      (0x01, ''Max31865 Unspecified error'')]"

definition first_fault :: "chip \<Rightarrow> int \<Rightarrow> string option" where
  "first_fault c fb = map_option snd (find (\<lambda>(b, msg). fb AND b \<noteq> 0) (fault_table c))"

subsection \<open>The rounding rule of the specification\<close>

text \<open>
  Written from the specification's words, not from the code: rounding half away from
  zero, \<open>sign(x) * floor(|x| + 0.5)\<close>.
\<close>

definition sign :: "real \<Rightarrow> int" where
  "sign x = (if x < 0 then - 1 else if x = 0 then 0 else 1)"

definition spec_round_half_away :: "real \<Rightarrow> int" where
  "spec_round_half_away x = sign x * \<lfloor>\<bar>x\<bar> + 0.5\<rfloor>"

subsection \<open>Temperatures that can be encoded\<close>

text \<open>
  A range of temperatures, and for the MAX31865 of resistances, on which no float
  operation of \<open>calc_adc\<close> leaves the binary64 range: temperatures of magnitude up to
  \<open>10^9\<close>, and for the MAX31865 a nominal resistance from 1 to \<open>10^9\<close> and a reference
  resistance of at least \<open>10^-9\<close>. Sign and order are free. Far outside it \<open>calc_adc\<close>
  raises \<open>OverflowError\<close>.
\<close>

fun encode_in_range :: "chip \<Rightarrow> real \<Rightarrow> bool" where
  "encode_in_range (MAX31865 cfg) temp =
     (0 < rtd_nominal_r cfg \<and> rtd_nominal_r cfg \<le> 10 ^ 9 \<and> 1 / 10 ^ 9 \<le> reference_r cfg
      \<and> \<bar>temp\<bar> \<le> 10 ^ 9)"
| "encode_in_range MAX31855 temp = (\<bar>temp\<bar> \<le> 10 ^ 9)"
| "encode_in_range (MAX31856 cfg) temp = (\<bar>temp\<bar> \<le> 10 ^ 9)"
| "encode_in_range MAX6675 temp = (\<bar>temp\<bar> \<le> 10 ^ 9)"

section \<open>Properties\<close>

subsection \<open>Constants and bit masks\<close>

lemmas MAX31856_consts =
  MAX31856_CR0_REG_def MAX31856_CR0_AUTOCONVERT_def MAX31856_CR0_FILT50HZ_def
  MAX31856_CR1_REG_def MAX31856_MASK_REG_def MAX31856_MASK_VOLTAGE_UNDER_OVER_FAULT_def
  MAX31856_MASK_THERMOCOUPLE_OPEN_FAULT_def MAX31856_SCALE_def MAX31856_MULT_def

lemmas MAX31856_fault_consts =
  MAX31856_FAULT_CJRANGE_def MAX31856_FAULT_TCRANGE_def MAX31856_FAULT_CJHIGH_def
  MAX31856_FAULT_CJLOW_def MAX31856_FAULT_TCHIGH_def MAX31856_FAULT_TCLOW_def
  MAX31856_FAULT_OVUV_def MAX31856_FAULT_OPEN_def

lemmas MAX31865_consts =
  MAX31865_CONFIG_REG_def MAX31865_CONFIG_BIAS_def MAX31865_CONFIG_MODEAUTO_def
  MAX31865_CONFIG_3WIRE_def MAX31865_CONFIG_FAULTCLEAR_def MAX31865_CONFIG_FILT50HZ_def

lemma and_7_eq_0: "(x::int) AND 7 = 0 \<longleftrightarrow> x AND 1 = 0 \<and> x AND 2 = 0 \<and> x AND 4 = 0"
proof -
  have "x AND 7 = (x AND 1) OR (x AND 2) OR (x AND 4)"
    by (simp flip: bit.conj_disj_distrib)
  then show ?thesis by (simp add: or_eq_0_iff)
qed

lemma and_6_eq_0: "(x::int) AND 6 = 0 \<longleftrightarrow> x AND 2 = 0 \<and> x AND 4 = 0"
proof -
  have "x AND 6 = (x AND 2) OR (x AND 4)"
    by (simp flip: bit.conj_disj_distrib)
  then show ?thesis by (simp add: or_eq_0_iff)
qed

lemma and_3_eq_0: "(x::int) AND 3 = 0 \<longleftrightarrow> x AND 2 = 0 \<and> x AND 1 = 0"
proof -
  have "x AND 3 = (x AND 2) OR (x AND 1)"
    by (simp flip: bit.conj_disj_distrib)
  then show ?thesis by (simp add: or_eq_0_iff)
qed

lemma and_255_eq_0:
  "(x::int) AND 0xFF = 0 \<longleftrightarrow>
     x AND 0x80 = 0 \<and> x AND 0x40 = 0 \<and> x AND 0x20 = 0 \<and> x AND 0x10 = 0 \<and>
     x AND 0x08 = 0 \<and> x AND 0x04 = 0 \<and> x AND 0x02 = 0 \<and> x AND 0x01 = 0"
proof -
  have "x AND 0xFF = (x AND 0x80) OR (x AND 0x40) OR (x AND 0x20) OR (x AND 0x10) OR
                     (x AND 0x08) OR (x AND 0x04) OR (x AND 0x02) OR (x AND 0x01)"
    by (simp flip: bit.conj_disj_distrib)
  then show ?thesis by (simp add: or_eq_0_iff)
qed

subsection \<open>Decoding a sample without fault bits\<close>

lemma MAX31855_calc_temp_clean:
  "adc AND 7 = 0 \<Longrightarrow>
   MAX31855_calc_temp adc = Inr (0.25 * real_of_int (spec_magnitude 0x2000 (drop_bit 18 adc)))"
  by (simp add: and_7_eq_0 MAX31855_calc_temp_def MAX31855_SCALE_def MAX31855_MULT_def
      spec_magnitude_def Let_def)

lemma MAX6675_calc_temp_clean:
  "adc AND 6 = 0 \<Longrightarrow>
   MAX6675_calc_temp adc = Inr (0.25 * real_of_int (spec_magnitude 0x2000 (drop_bit 3 adc)))"
  by (simp add: and_6_eq_0 MAX6675_calc_temp_def MAX6675_SCALE_def MAX6675_MULT_def
      spec_magnitude_def Let_def)

lemma MAX31856_calc_temp_eq:
  "MAX31856_calc_temp adc = 0.0078125 * real_of_int (spec_magnitude 0x40000 (drop_bit 5 adc))"
  by (simp add: MAX31856_calc_temp_def MAX31856_SCALE_def MAX31856_MULT_def
      spec_magnitude_def Let_def)

lemma MAX31856_check_faults_clean:
  "fault AND 0xFF = 0 \<Longrightarrow> MAX31856_check_faults fault = Inr ()"
  by (simp add: and_255_eq_0 MAX31856_check_faults_def MAX31856_fault_consts)

lemma MAX31865_check_faults_clean:
  "fault AND 0xFF = 0 \<Longrightarrow> MAX31865_check_faults fault = Inr ()"
  by (simp add: and_255_eq_0 and_3_eq_0 MAX31865_check_faults_def)

text \<open>
  C2. For MAX31855 (shift 18, mask 0x2000, multiplier 0.25), MAX6675 (shift 3, mask
  0x2000, multiplier 0.25) and MAX31856 (shift 5, mask 0x40000, multiplier 0.0078125),
  a sample with no fault bit set passes the fault check and decodes to
  \<open>multiplier * m\<close>, where \<open>m\<close> is \<open>-((v AND (mask - 1)) + 1)\<close> if the mask bit is set
  in the shifted value \<open>v\<close>, and \<open>v\<close> otherwise.
\<close>

theorem twos_complement_decode:
  assumes "spec_table c = Some (shift, sign_mask, mult)"
    and "fault_bits c p = 0"
  shows "calc_temp c (p_value p) =
           Inr (mult * real_of_int (spec_magnitude sign_mask (drop_bit shift (p_value p))))
         \<and> check_faults c (p_fault p) = Inr ()"
proof (cases c)
  case MAX31855
  with assms show ?thesis
    by (auto simp: MAX31855_calc_temp_clean MAX31855_check_faults_def)
next
  case (MAX31856 cfg)
  with assms show ?thesis
    by (auto simp: MAX31856_calc_temp_eq MAX31856_check_faults_clean)
next
  case (MAX31865 cfg)
  with assms show ?thesis by simp
next
  case MAX6675
  with assms show ?thesis
    by (auto simp: MAX6675_calc_temp_clean MAX6675_check_faults_def)
qed

theorem twos_complement_decode_witness:
  "spec_table MAX31855 = Some (18, 0x2000, 0.25)
   \<and> fault_bits MAX31855 \<lparr>p_value = 0x80040000, p_fault = 0, p_next_clock = 0\<rparr> = 0
   \<and> calc_temp MAX31855 0x80040000 = Inr (- 0.5)"
  using twos_complement_decode [of MAX31855 18 "0x2000" "0.25"
      "\<lparr>p_value = 0x80040000, p_fault = 0, p_next_clock = 0\<rparr>"]
  by (simp add: spec_magnitude_def)


subsection \<open>A concrete MAX31856 sample\<close>

text \<open>
  C7 (as amended). The raw code whose value shifted right by 5 is \<open>0x40000\<close> is
  \<open>0x00800000\<close>: MAX31856 decodes it, with fault byte zero, to \<open>-0.0078125\<close>. The raw
  code \<open>0x00080000\<close> shifts to \<open>0x4000\<close>, which has the sign bit clear, and decodes
  to \<open>128.0\<close>.
\<close>

theorem MAX31856_sign_bit_sample:
  "MAX31856_calc_temp 0x00800000 = - 0.0078125
   \<and> MAX31856_check_faults 0 = Inr ()
   \<and> drop_bit MAX31856_SCALE (0x00080000 :: int) = 0x4000
   \<and> MAX31856_calc_temp 0x00080000 = 128.0"
  by (simp add: MAX31856_calc_temp_def MAX31856_check_faults_def MAX31856_consts
      MAX31856_fault_consts Let_def)

text \<open>
  C7 as written fails: MAX31856 does not decode the raw code \<open>0x00080000\<close> to
  \<open>-0.0078125\<close>.
\<close>

theorem MAX31856_0x80000_not_negative:
  "MAX31856_calc_temp 0x00080000 \<noteq> - 0.0078125"
  by (simp add: MAX31856_calc_temp_def MAX31856_consts Let_def)

subsection \<open>Configuration bytes\<close>

text \<open>
  C9. The MAX31856 builder writes six bytes; the first register value (the second byte)
  has bit 0, the 50Hz filter bit, set iff \<open>tc_use_50Hz_filter\<close>, and its other bits are
  the auto-convert bit alone. The MAX31865 builder writes one register address and one
  value: bias, auto mode and fault clear, plus the 50Hz filter bit iff
  \<open>rtd_use_50Hz_filter\<close>, plus the 3-wire bit iff the wire count is 3.
\<close>

theorem config_register_values:
  "length (get_configs (MAX31856 cfg)) = 6
   \<and> get_configs (MAX31856 cfg) ! 0 = 0x80
   \<and> (bit (get_configs (MAX31856 cfg) ! 1) 0 \<longleftrightarrow> tc_use_50Hz_filter cfg)
   \<and> get_configs (MAX31856 cfg) ! 1 AND NOT 0x01 = MAX31856_CR0_AUTOCONVERT
   \<and> get_configs (MAX31865 rtd) =
       [0x80, (MAX31865_CONFIG_BIAS OR MAX31865_CONFIG_MODEAUTO OR MAX31865_CONFIG_FAULTCLEAR)
              + (if rtd_use_50Hz_filter rtd then MAX31865_CONFIG_FILT50HZ else 0)
              + (if num_wires rtd = 3 then MAX31865_CONFIG_3WIRE else 0)]"
  by (simp add: MAX31856_get_configs_def MAX31865_get_configs_def MAX31856_consts
      MAX31865_consts Let_def)

subsection \<open>Handling a sample\<close>

lemma handle_spi_response_clean:
  assumes "calc_temp (kind s) (p_value p) = Inr temp"
    and "check_faults (kind s) (p_fault p) = Inr ()"
  shows "handle_spi_response m s p =
           (Inr (), s,
            if has_callback s
            then [(clock_to_print_time m (clock32_to_clock64 m (p_next_clock p) - report_clock s),
                   temp)]
            else [])"
  using assms by (simp add: handle_spi_response_def Let_def)

lemma handle_spi_response_calc_temp_raises:
  "calc_temp (kind s) (p_value p) = Inl e \<Longrightarrow> handle_spi_response m s p = (Inl e, s, [])"
  by (simp add: handle_spi_response_def Let_def)

lemma handle_spi_response_check_faults_raises:
  "calc_temp (kind s) (p_value p) = Inr temp \<Longrightarrow> check_faults (kind s) (p_fault p) = Inl e
   \<Longrightarrow> handle_spi_response m s p = (Inl e, s, [])"
  by (simp add: handle_spi_response_def Let_def)

text \<open>
  C10. For MAX31855 and MAX6675 \<open>check_faults\<close> never raises, so the fault field of the
  message does not change what handling a sample does; when the raw value has no fault
  bit and a callback is registered, the callback receives a reading whatever the fault
  field holds.
\<close>

theorem fault_field_ignored:
  assumes "kind s = MAX31855 \<or> kind s = MAX6675"
  shows "check_faults (kind s) f = Inr ()
     \<and> handle_spi_response m s (p\<lparr>p_fault := f\<rparr>) = handle_spi_response m s p
     \<and> (fault_bits (kind s) p = 0 \<and> has_callback s \<longrightarrow>
          (\<exists>temp. calc_temp (kind s) (p_value p) = Inr temp
             \<and> handle_spi_response m s (p\<lparr>p_fault := f\<rparr>) =
                 (Inr (), s,
                  [(clock_to_print_time m
                      (clock32_to_clock64 m (p_next_clock p) - report_clock s), temp)])))"
proof -
  have nop: "check_faults (kind s) g = Inr ()" for g
    using assms by (auto simp: MAX31855_check_faults_def MAX6675_check_faults_def)
  have same: "handle_spi_response m s (p\<lparr>p_fault := f\<rparr>) = handle_spi_response m s p"
    by (simp add: handle_spi_response_def nop Let_def cong: sum.case_cong)
  have reading: "\<exists>temp. calc_temp (kind s) (p_value p) = Inr temp
             \<and> handle_spi_response m s (p\<lparr>p_fault := f\<rparr>) =
                 (Inr (), s,
                  [(clock_to_print_time m
                      (clock32_to_clock64 m (p_next_clock p) - report_clock s), temp)])"
    if clean: "fault_bits (kind s) p = 0" and cb: "has_callback s"
  proof -
    from assms have "\<exists>temp. calc_temp (kind s) (p_value p) = Inr temp"
    proof
      assume k: "kind s = MAX31855"
      with clean have "p_value p AND 7 = 0" by simp
      from MAX31855_calc_temp_clean [OF this] k show ?thesis
        by (simp only: calc_temp.simps) blast
    next
      assume k: "kind s = MAX6675"
      with clean have "p_value p AND 6 = 0" by simp
      from MAX6675_calc_temp_clean [OF this] k show ?thesis
        by (simp only: calc_temp.simps) blast
    qed
    then obtain temp where t: "calc_temp (kind s) (p_value p) = Inr temp" ..
    from handle_spi_response_clean [OF t nop, of m] cb same t show ?thesis
      by simp
  qed
  from nop same reading show ?thesis by blast
qed

theorem fault_field_ignored_witness:
  "(kind (demo_sensor MAX31855) = MAX31855 \<or> kind (demo_sensor MAX31855) = MAX6675)
   \<and> fault_bits MAX31855 \<lparr>p_value = 0x01900000, p_fault = 0, p_next_clock = 20800000\<rparr> = 0
   \<and> has_callback (demo_sensor MAX31855)
   \<and> handle_spi_response demo_mcu (demo_sensor MAX31855)
        \<lparr>p_value = 0x01900000, p_fault = 0xFF, p_next_clock = 20800000\<rparr> =
       (Inr (), demo_sensor MAX31855, [(1, 25)])"
  using fault_field_ignored [of "demo_sensor MAX31855" "0xFF" demo_mcu
      "\<lparr>p_value = 0x01900000, p_fault = 0, p_next_clock = 20800000\<rparr>"]
  by (auto simp: demo_sensor_def demo_mcu_def MAX31855_calc_temp_def MAX31855_SCALE_def
      MAX31855_MULT_def Let_def)

subsection \<open>The MAX31865 transfer function\<close>

lemma VAL_B_pos: "0 < VAL_B"
  by (simp add: VAL_B_def)

lemma four_VAL_B_less: "4 * VAL_B < VAL_A * VAL_A"
  by (simp add: VAL_A_def VAL_B_def)

lemma discriminant_nonneg:
  assumes "0 < n" and "0 \<le> R"
  shows "0 \<le> (n * n * VAL_A * VAL_A) - (4 * n * VAL_B * (n - R))"
proof -
  have "0 \<le> n * (VAL_A * VAL_A - 4 * VAL_B)"
    using assms(1) four_VAL_B_less by simp
  moreover have "0 \<le> 4 * VAL_B * R"
    using assms(2) VAL_B_pos by simp
  ultimately have "0 \<le> n * (n * (VAL_A * VAL_A - 4 * VAL_B) + 4 * VAL_B * R)"
    using assms(1) by simp
  also have "\<dots> = (n * n * VAL_A * VAL_A) - (4 * n * VAL_B * (n - R))"
    by (simp add: algebra_simps)
  finally show ?thesis .
qed

lemma MAX31865_calc_temp_ok:
  assumes "0 < rtd_nominal_r self" and "0 < reference_r self" and "0 \<le> adc"
  shows "MAX31865_calc_temp self adc =
     Inr ((- real_of_int (rtd_nominal_r self) * VAL_A
           + sqrt (real_of_int (rtd_nominal_r self) * real_of_int (rtd_nominal_r self)
                     * VAL_A * VAL_A
                   - 4 * real_of_int (rtd_nominal_r self) * VAL_B
                     * (real_of_int (rtd_nominal_r self)
                        - reference_r self * real_of_int (drop_bit 1 adc) / VAL_ADC_MAX)))
          / (2 * real_of_int (rtd_nominal_r self) * VAL_B))"
proof -
  let ?n = "real_of_int (rtd_nominal_r self)"
  let ?R = "reference_r self * real_of_int (drop_bit 1 adc) / VAL_ADC_MAX"
  have n: "0 < ?n" using assms(1) by simp
  have "0 \<le> drop_bit 1 adc" using assms(3) by simp
  then have R: "0 \<le> ?R" using assms(2) by (simp add: VAL_ADC_MAX_def)
  have d: "\<not> (?n * ?n * VAL_A * VAL_A) - (4 * ?n * VAL_B * (?n - ?R)) < 0"
    using discriminant_nonneg [OF n R] by simp
  have z: "2 * ?n * VAL_B \<noteq> 0" using n VAL_B_pos by simp
  show ?thesis
    unfolding MAX31865_calc_temp_def Let_def py_sqrt_def py_div_def
    using d z by simp
qed

text \<open>
  C3. For a MAX31865 with positive nominal and reference resistance and every raw
  sample, decoding returns, with \<open>code = raw >> 1\<close> and
  \<open>R = reference_r * code / 32768.0\<close>, the temperature
  \<open>(-nominal_r*A + sqrt(nominal_r^2*A^2 - 4*nominal_r*B*(nominal_r - R))) / (2*nominal_r*B)\<close>
  for \<open>A = 0.00390830\<close> and \<open>B = 0.0000005775\<close>: the root is added, never
  subtracted, and the constant \<open>C\<close> does not occur.
\<close>

theorem MAX31865_decode_formula:
  assumes "0 < rtd_nominal_r self" and "0 < reference_r self" and "0 \<le> raw"
  shows "MAX31865_calc_temp self raw =
     Inr (let code = drop_bit 1 raw;
              nominal_r = real_of_int (rtd_nominal_r self);
              R = reference_r self * real_of_int code / 32768.0;
              A = 0.00390830;
              B = 0.0000005775
          in (- nominal_r * A + sqrt (nominal_r\<^sup>2 * A\<^sup>2 - 4 * nominal_r * B * (nominal_r - R)))
             / (2 * nominal_r * B))"
proof -
  have sq: "n\<^sup>2 * a\<^sup>2 = n * n * a * a" for n a :: real
    by (simp add: power2_eq_square)
  from MAX31865_calc_temp_ok [OF assms] show ?thesis
    unfolding VAL_A_def VAL_B_def VAL_ADC_MAX_def Let_def
    by (simp only: sq)
qed

text \<open>
  Without the hypotheses on the configuration: whenever decoding returns, it returns
  that value; with \<open>rtd_nominal_r = 0\<close> it raises.
\<close>

lemma MAX31865_calc_temp_partial:
  "MAX31865_calc_temp self adc = Inr t \<Longrightarrow>
   t = (- real_of_int (rtd_nominal_r self) * VAL_A
           + sqrt (real_of_int (rtd_nominal_r self) * real_of_int (rtd_nominal_r self)
                     * VAL_A * VAL_A
                   - 4 * real_of_int (rtd_nominal_r self) * VAL_B
                     * (real_of_int (rtd_nominal_r self)
                        - reference_r self * real_of_int (drop_bit 1 adc) / VAL_ADC_MAX)))
          / (2 * real_of_int (rtd_nominal_r self) * VAL_B)"
  by (auto simp: MAX31865_calc_temp_def Let_def py_sqrt_def py_div_def split: if_splits)

lemma MAX31865_calc_temp_zero_nominal:
  "rtd_nominal_r self = 0 \<Longrightarrow> MAX31865_calc_temp self adc = Inl ZeroDivisionError"
  by (simp add: MAX31865_calc_temp_def Let_def py_sqrt_def py_div_def)

theorem MAX31865_decode_formula_witness:
  "0 < rtd_nominal_r \<lparr>rtd_nominal_r = 100, reference_r = 400, num_wires = 2,
                     rtd_use_50Hz_filter = False\<rparr>
   \<and> (0::real) < reference_r \<lparr>rtd_nominal_r = 100, reference_r = 400, num_wires = 2,
                     rtd_use_50Hz_filter = False\<rparr>
   \<and> (0::int) \<le> 16384
   \<and> MAX31865_calc_temp \<lparr>rtd_nominal_r = 100, reference_r = 400, num_wires = 2,
                     rtd_use_50Hz_filter = False\<rparr> 16384 = Inr 0"
proof -
  have "sqrt (152748088900 / 10 ^ 12) = 390830 / 10 ^ 6"
    by (rule real_sqrt_unique) (simp_all add: power2_eq_square)
  with MAX31865_decode_formula [of "\<lparr>rtd_nominal_r = 100, reference_r = 400, num_wires = 2,
                     rtd_use_50Hz_filter = False\<rparr>" 16384]
  show ?thesis by (simp add: Let_def power2_eq_square)
qed

subsection \<open>Fault detection\<close>

lemma MAX31855_calc_temp_fault:
  "MAX31855_calc_temp adc =
     (case first_fault MAX31855 (adc AND 0x7) of
        Some msg \<Rightarrow> Inl (SensorError msg)
      | None \<Rightarrow> Inr (0.25 * real_of_int (spec_magnitude 0x2000 (drop_bit 18 adc))))"
  by (simp add: first_fault_def MAX31855_calc_temp_def MAX31855_SCALE_def MAX31855_MULT_def
      spec_magnitude_def Let_def and.assoc)

lemma MAX6675_calc_temp_fault:
  "MAX6675_calc_temp adc =
     (case first_fault MAX6675 (adc AND 0x6) of
        Some msg \<Rightarrow> Inl (SensorError msg)
      | None \<Rightarrow> Inr (0.25 * real_of_int (spec_magnitude 0x2000 (drop_bit 3 adc))))"
  by (simp add: first_fault_def MAX6675_calc_temp_def MAX6675_SCALE_def MAX6675_MULT_def
      spec_magnitude_def Let_def and.assoc)

lemma MAX31856_check_faults_fault:
  "MAX31856_check_faults fault =
     (case first_fault (MAX31856 cfg) (fault AND 0xFF) of
        Some msg \<Rightarrow> Inl (SensorError msg)
      | None \<Rightarrow> Inr ())"
  by (simp add: first_fault_def MAX31856_check_faults_def MAX31856_fault_consts and.assoc)

lemma MAX31865_check_faults_fault:
  "MAX31865_check_faults fault =
     (case first_fault (MAX31865 cfg) (fault AND 0xFF) of
        Some msg \<Rightarrow> Inl (SensorError msg)
      | None \<Rightarrow> Inr ())"
  by (simp add: first_fault_def MAX31865_check_faults_def and.assoc and_3_eq_0)

lemma first_fault_None_iff: "first_fault c (fault_bits c p) = None \<longleftrightarrow> fault_bits c p = 0"
proof (cases c)
  case MAX31855
  then show ?thesis
    by (simp add: first_fault_def and.assoc and_7_eq_0)
next
  case (MAX31856 cfg)
  then show ?thesis
    by (simp add: first_fault_def and.assoc and_255_eq_0)
next
  case (MAX31865 cfg)
  then show ?thesis
    by (simp add: first_fault_def and.assoc and_255_eq_0)
next
  case MAX6675
  then show ?thesis
    by (simp add: first_fault_def and.assoc and_6_eq_0)
qed

lemma first_fault_in_table:
  "first_fault c fb = Some msg \<Longrightarrow> msg \<in> snd ` set (fault_table c)"
  by (auto simp: first_fault_def find_Some_iff in_set_conv_nth image_iff intro!: bexI)


lemma first_fault_table:
  "\<forall>(b, msg) \<in> set (fault_table c). first_fault c b = Some msg"
  by (cases c) (simp_all add: first_fault_def)

lemma first_fault_single_bit:
  "(b, msg) \<in> set (fault_table c) \<Longrightarrow> first_fault c b = Some msg"
  using first_fault_table [of c] by blast

lemma MAX31865_calc_temp_no_SensorError:
  "MAX31865_calc_temp self adc \<noteq> Inl (SensorError msg)"
  by (simp add: MAX31865_calc_temp_def Let_def py_sqrt_def py_div_def)

lemma handle_spi_response_outcome:
  assumes "config_ok (kind s)" and "0 \<le> p_value p"
  shows "fst (handle_spi_response m s p) =
           (case first_fault (kind s) (fault_bits (kind s) p) of
              Some msg \<Rightarrow> Inl (SensorError msg)
            | None \<Rightarrow> Inr ())
         \<and> (first_fault (kind s) (fault_bits (kind s) p) \<noteq> None \<longrightarrow>
              snd (handle_spi_response m s p) = (s, []))"
proof (cases "kind s")
  case MAX31855
  then show ?thesis
    by (simp add: handle_spi_response_def Let_def MAX31855_calc_temp_fault
        MAX31855_check_faults_def split: option.splits)
next
  case (MAX31856 cfg)
  then show ?thesis
    by (simp add: handle_spi_response_def Let_def MAX31856_check_faults_fault [of _ cfg]
        split: option.splits)
next
  case (MAX31865 cfg)
  with assms have "0 < rtd_nominal_r cfg" "0 < reference_r cfg" by simp_all
  from MAX31865_calc_temp_ok [OF this assms(2)] MAX31865 show ?thesis
    by (simp add: handle_spi_response_def Let_def MAX31865_check_faults_fault [of _ cfg]
        split: option.splits)
next
  case MAX6675
  then show ?thesis
    by (simp add: handle_spi_response_def Let_def MAX6675_calc_temp_fault
        MAX6675_check_faults_def split: option.splits)
qed

lemma handle_spi_response_no_fault:
  assumes "fault_bits (kind s) p = 0"
  shows "fst (handle_spi_response m s p) \<noteq> Inl (SensorError msg)"
proof (cases "kind s")
  case MAX31855
  with assms show ?thesis
    by (simp add: handle_spi_response_def Let_def MAX31855_calc_temp_clean
        MAX31855_check_faults_def)
next
  case (MAX31856 cfg)
  with assms show ?thesis
    by (simp add: handle_spi_response_def Let_def MAX31856_check_faults_clean)
next
  case (MAX31865 cfg)
  with assms show ?thesis
    using MAX31865_calc_temp_no_SensorError [of cfg "p_value p" msg]
    by (auto simp: handle_spi_response_def Let_def MAX31865_check_faults_clean
        split: sum.splits)
next
  case MAX6675
  with assms show ?thesis
    by (simp add: handle_spi_response_def Let_def MAX6675_calc_temp_clean
        MAX6675_check_faults_def)
qed

lemma find_Some_member: "find P xs = Some x \<Longrightarrow> x \<in> set xs \<and> P x"
  by (induction xs) (auto split: if_splits)

lemma first_fault_entry:
  "first_fault c fb = Some msg \<Longrightarrow> \<exists>b. (b, msg) \<in> set (fault_table c) \<and> fb AND b \<noteq> 0"
proof -
  assume "first_fault c fb = Some msg"
  then obtain e where e: "find (\<lambda>(b, msg). fb AND b \<noteq> 0) (fault_table c) = Some e"
    and m: "snd e = msg"
    by (auto simp: first_fault_def)
  from find_Some_member [OF e] have "e \<in> set (fault_table c)" and "fb AND fst e \<noteq> 0"
    by (simp_all add: case_prod_beta)
  with m show ?thesis
    by (cases e) auto
qed

text \<open>
  C4. When a fault bit of a sample is set (on a well-formed configuration, the raw
  value being unsigned), handling the sample raises the session's error type with the
  message that the chip's fault table gives for the fault: the message of the first
  entry of the table whose bit is set in the sample. The callback is not called, and the
  session is left as it was: handling a later sample from the resulting session is
  handling it from the original one.
\<close>

theorem faulty_sample_raises:
  assumes "config_ok (kind s)" and "0 \<le> p_value p" and "fault_bits (kind s) p \<noteq> 0"
  shows "\<exists>b msg. (b, msg) \<in> set (fault_table (kind s))
           \<and> fault_bits (kind s) p AND b \<noteq> 0
           \<and> first_fault (kind s) (fault_bits (kind s) p) = Some msg
           \<and> handle_spi_response m s p = (Inl (SensorError msg), s, [])
           \<and> handle_spi_response m (fst (snd (handle_spi_response m s p))) p' =
               handle_spi_response m s p'"
proof -
  from assms(3) obtain msg where ff: "first_fault (kind s) (fault_bits (kind s) p) = Some msg"
    using first_fault_None_iff [of "kind s" p] by auto
  from first_fault_entry [OF ff] obtain b where
    b: "(b, msg) \<in> set (fault_table (kind s))" "fault_bits (kind s) p AND b \<noteq> 0"
    by blast
  from handle_spi_response_outcome [OF assms(1,2), of m] ff
  have h: "handle_spi_response m s p = (Inl (SensorError msg), s, [])"
    by (simp add: prod_eq_iff)
  then have "handle_spi_response m (fst (snd (handle_spi_response m s p))) p' =
               handle_spi_response m s p'"
    by simp
  with b ff h show ?thesis
    by blast
qed

theorem faulty_sample_raises_witness:
  "config_ok (kind (demo_sensor (MAX31865 pt100)))
   \<and> 0 \<le> p_value \<lparr>p_value = 15240, p_fault = 0x60, p_next_clock = 20800000\<rparr>
   \<and> fault_bits (kind (demo_sensor (MAX31865 pt100)))
        \<lparr>p_value = 15240, p_fault = 0x60, p_next_clock = 20800000\<rparr> \<noteq> 0
   \<and> handle_spi_response demo_mcu (demo_sensor (MAX31865 pt100))
        \<lparr>p_value = 15240, p_fault = 0x60, p_next_clock = 20800000\<rparr> =
       (Inl (SensorError ''Max31865 RTD input is shorted''), demo_sensor (MAX31865 pt100), [])"
proof -
  let ?s = "demo_sensor (MAX31865 pt100)"
  let ?p = "\<lparr>p_value = 15240, p_fault = 0x60, p_next_clock = 20800000\<rparr>"
  have c: "config_ok (kind ?s)"
    by (simp add: demo_sensor_def pt100_def)
  have v: "0 \<le> p_value ?p"
    by simp
  have f: "fault_bits (kind ?s) ?p \<noteq> 0"
    by (simp add: demo_sensor_def)
  from faulty_sample_raises [OF c v f, of demo_mcu] obtain msg where
    ff: "first_fault (kind ?s) (fault_bits (kind ?s) ?p) = Some msg" and
    h: "handle_spi_response demo_mcu ?s ?p = (Inl (SensorError msg), ?s, [])"
    by blast
  from ff have "msg = ''Max31865 RTD input is shorted''"
    by (simp add: demo_sensor_def first_fault_def)
  with h c v f show ?thesis
    by simp
qed

text \<open>
  C6. With all fault bits clear, handling a sample never raises a sensor fault, whatever
  the other bits are. On a well-formed configuration, a sample whose fault bits are
  exactly one bit of the chip's fault table raises the fault of that entry, whatever the
  other bits are; and two samples with the same fault bits raise the same fault or none.
\<close>

theorem fault_detection_ignores_magnitude:
  "(fault_bits (kind s) p = 0 \<longrightarrow>
      (\<forall>msg. fst (handle_spi_response m s p) \<noteq> Inl (SensorError msg)))
   \<and> (config_ok (kind s) \<and> 0 \<le> p_value p \<longrightarrow>
        (\<forall>(b, msg) \<in> set (fault_table (kind s)).
           fault_bits (kind s) p = b \<longrightarrow>
           fst (handle_spi_response m s p) = Inl (SensorError msg))
      \<and> (\<forall>p'. 0 \<le> p_value p' \<and> fault_bits (kind s) p' = fault_bits (kind s) p \<longrightarrow>
           fst (handle_spi_response m s p') = fst (handle_spi_response m s p)))"
proof (intro conjI impI allI)
  fix msg
  assume "fault_bits (kind s) p = 0"
  then show "fst (handle_spi_response m s p) \<noteq> Inl (SensorError msg)"
    by (rule handle_spi_response_no_fault)
next
  assume ok: "config_ok (kind s) \<and> 0 \<le> p_value p"
  then show "\<forall>(b, msg) \<in> set (fault_table (kind s)).
           fault_bits (kind s) p = b \<longrightarrow>
           fst (handle_spi_response m s p) = Inl (SensorError msg)"
    using handle_spi_response_outcome [of s p m] by (auto simp: first_fault_single_bit)
next
  fix p'
  assume ok: "config_ok (kind s) \<and> 0 \<le> p_value p"
    and same: "0 \<le> p_value p' \<and> fault_bits (kind s) p' = fault_bits (kind s) p"
  then show "fst (handle_spi_response m s p') = fst (handle_spi_response m s p)"
    using handle_spi_response_outcome [of s p m] handle_spi_response_outcome [of s p' m]
    by simp
qed

theorem fault_detection_ignores_magnitude_witness:
  "fault_bits (kind (demo_sensor (MAX31856 type_k)))
      \<lparr>p_value = 0x00800000, p_fault = 0, p_next_clock = 0\<rparr> = 0
   \<and> fst (handle_spi_response demo_mcu (demo_sensor (MAX31856 type_k))
        \<lparr>p_value = 0x00800000, p_fault = 0, p_next_clock = 0\<rparr>) = Inr ()
   \<and> config_ok (kind (demo_sensor (MAX31856 type_k)))
   \<and> 0 \<le> p_value \<lparr>p_value = 0, p_fault = 0x04, p_next_clock = 0\<rparr>
   \<and> (0x04, ''Max31856: Thermocouple Low Fault'')
        \<in> set (fault_table (kind (demo_sensor (MAX31856 type_k))))
   \<and> fault_bits (kind (demo_sensor (MAX31856 type_k)))
        \<lparr>p_value = 0, p_fault = 0x04, p_next_clock = 0\<rparr> = 0x04
   \<and> fst (handle_spi_response demo_mcu (demo_sensor (MAX31856 type_k))
        \<lparr>p_value = 0, p_fault = 0x04, p_next_clock = 0\<rparr>) =
       Inl (SensorError ''Max31856: Thermocouple Low Fault'')
   \<and> fst (handle_spi_response demo_mcu (demo_sensor (MAX31856 type_k))
        \<lparr>p_value = 0x00800000, p_fault = 0x04, p_next_clock = 0\<rparr>) =
       Inl (SensorError ''Max31856: Thermocouple Low Fault'')"
  using fault_detection_ignores_magnitude [of "demo_sensor (MAX31856 type_k)"
      "\<lparr>p_value = 0x00800000, p_fault = 0, p_next_clock = 0\<rparr>" demo_mcu]
    fault_detection_ignores_magnitude [of "demo_sensor (MAX31856 type_k)"
      "\<lparr>p_value = 0, p_fault = 0x04, p_next_clock = 0\<rparr>" demo_mcu]
  by (simp add: demo_sensor_def type_k_def demo_mcu_def handle_spi_response_def Let_def
      MAX31856_check_faults_def MAX31856_fault_consts)

subsection \<open>Floats in range\<close>

lemma float_limit: "(10::real) ^ 303 < 2 ^ 1024 - 2 ^ 970"
  by simp

lemma not_float_overflow:
  assumes "\<bar>x\<bar> \<le> 10 ^ 60"
  shows "\<not> float_overflow x"
proof -
  have "(10::real) ^ 60 \<le> 10 ^ 303"
    by (rule power_increasing) simp_all
  with assms have "\<bar>x\<bar> \<le> 10 ^ 303"
    by (rule order_trans)
  from this float_limit have "\<bar>x\<bar> < 2 ^ 1024 - 2 ^ 970"
    by (rule le_less_trans)
  then show ?thesis
    unfolding float_overflow_def by (simp only: not_le)
qed

lemma fl_Finite: "\<bar>x\<bar> \<le> 10 ^ 60 \<Longrightarrow> fl x = Finite x"
  by (simp only: fl_def not_float_overflow if_False)

lemma float_op_Finite: "\<bar>f x\<bar> \<le> 10 ^ 60 \<Longrightarrow> float_op f (Finite x) = Finite (f x)"
  by (simp only: float_op_def pyfloat.case fl_Finite)

lemma py_pow_Finite:
  "\<bar>x ^ k\<bar> \<le> 10 ^ 60 \<Longrightarrow> py_pow (Finite x) k = Inr (Finite (x ^ k))"
  by (simp only: py_pow_def pyfloat.case not_float_overflow if_False)

lemma int_plus_half_Finite:
  assumes "\<bar>x\<bar> \<le> 10 ^ 59"
  shows "py_int (float_op (\<lambda>q. q + 0.5) (fl x)) = Inr (py_trunc (x + 0.5))"
proof -
  from assms have "\<bar>x\<bar> \<le> 10 ^ 60" and "\<bar>x + 0.5\<bar> \<le> 10 ^ 60"
    by simp_all
  then show ?thesis
    by (simp add: fl_Finite float_op_Finite py_int_def)
qed

lemma MAX31855_calc_adc_finite:
  assumes "\<bar>temp\<bar> \<le> 10 ^ 9"
  shows "MAX31855_calc_adc temp = Inr (push_bit 18 (py_trunc (temp / 0.25 + 0.5)))"
proof -
  from assms have "\<bar>temp / 0.25\<bar> \<le> 10 ^ 59"
    by simp
  from int_plus_half_Finite [OF this] show ?thesis
    by (simp add: MAX31855_calc_adc_def MAX31855_MULT_def MAX31855_SCALE_def)
qed

lemma MAX6675_calc_adc_finite:
  assumes "\<bar>temp\<bar> \<le> 10 ^ 9"
  shows "MAX6675_calc_adc temp = Inr (push_bit 3 (py_trunc (temp / 0.25 + 0.5)))"
proof -
  from assms have "\<bar>temp / 0.25\<bar> \<le> 10 ^ 59"
    by simp
  from int_plus_half_Finite [OF this] show ?thesis
    by (simp add: MAX6675_calc_adc_def MAX6675_MULT_def MAX6675_SCALE_def)
qed

lemma MAX31856_calc_adc_finite:
  assumes "\<bar>temp\<bar> \<le> 10 ^ 9"
  shows "MAX31856_calc_adc temp = Inr (push_bit 5 (py_trunc (temp / 0.0078125 + 0.5)))"
proof -
  from assms have "\<bar>temp / 0.0078125\<bar> \<le> 10 ^ 59"
    by simp
  from int_plus_half_Finite [OF this] show ?thesis
    by (simp add: MAX31856_calc_adc_def MAX31856_MULT_def MAX31856_SCALE_def)
qed

text \<open>Out of range: \<open>1e308 / 0.25\<close> is an infinity, and \<open>int()\<close> raises.\<close>

lemma MAX31855_calc_adc_overflow:
  "MAX31855_calc_adc (10 ^ 308) = Inl OverflowError"
  by (simp add: MAX31855_calc_adc_def MAX31855_MULT_def fl_def float_overflow_def
      float_op_def py_int_def)


subsection \<open>Encoding a temperature\<close>

text \<open>
  The quantization step \<open>int(x + 0.5)\<close> of every \<open>calc_adc\<close> agrees with rounding half
  away from zero exactly when \<open>x > -1/2\<close>; from \<open>-1/2\<close> downwards it is one more.
\<close>

lemma py_trunc_half_nonneg:
  assumes "- 1 / 2 < x"
  shows "py_trunc (x + 0.5) = spec_round_half_away x"
proof (cases "0 \<le> x")
  case True
  then show ?thesis
    by (simp add: py_trunc_def spec_round_half_away_def sign_def)
next
  case False
  with assms have "\<lfloor>x + 1 / 2\<rfloor> = 0" "\<lfloor>- x + 1 / 2\<rfloor> = 0"
    by (simp_all add: floor_eq_iff)
  with False assms show ?thesis
    by (simp add: py_trunc_def spec_round_half_away_def sign_def)
qed

lemma py_trunc_half_neg:
  assumes "x \<le> - 1 / 2"
  shows "py_trunc (x + 0.5) = spec_round_half_away x + 1"
proof (cases "x = - 1 / 2")
  case True
  then show ?thesis
    by (simp add: py_trunc_def spec_round_half_away_def sign_def)
next
  case False
  with assms have neg: "x + 1 / 2 < 0"
    by simp
  have "\<lceil>x + 1 / 2\<rceil> = - \<lfloor>- x + 1 / 2\<rfloor> + 1"
    unfolding ceiling_def by (simp add: floor_eq_iff) linarith
  with neg show ?thesis
    by (simp add: py_trunc_def spec_round_half_away_def sign_def)
qed

lemma int_plus_half_nonneg:
  assumes "- 1 / 2 < x" and "\<bar>x\<bar> \<le> 10 ^ 59"
  shows "py_int (float_op (\<lambda>q. q + 0.5) (fl x)) = Inr (spec_round_half_away x)"
  using int_plus_half_Finite [OF assms(2)] py_trunc_half_nonneg [OF assms(1)] by simp

lemma int_plus_half_neg:
  assumes "x \<le> - 1 / 2" and "\<bar>x\<bar> \<le> 10 ^ 59"
  shows "py_int (float_op (\<lambda>q. q + 0.5) (fl x)) = Inr (spec_round_half_away x + 1)"
  using int_plus_half_Finite [OF assms(2)] py_trunc_half_neg [OF assms(1)] by simp

text \<open>
  C8, at the input \<open>-1.0\<close> of \<open>MAX31855.calc_adc\<close>: the value before the shift is
  \<open>x = -4\<close>, the code's \<open>int(x + 0.5)\<close> is \<open>-3\<close>, and rounding half away from zero,
  \<open>sign(x) * floor(|x| + 0.5)\<close>, is \<open>-4\<close>.
\<close>

theorem calc_adc_negative_rounding:
  "(- 1) / MAX31855_MULT = - 4
   \<and> py_int (float_op (\<lambda>q. q + 0.5) (fl (- 4))) = Inr (- 3)
   \<and> MAX31855_calc_adc (- 1) = Inr (push_bit MAX31855_SCALE (- 3))
   \<and> spec_round_half_away (- 4) = - 4"
  by (simp add: MAX31855_calc_adc_def MAX31855_MULT_def fl_Finite float_op_Finite
      py_int_def py_trunc_def spec_round_half_away_def sign_def)

text \<open>
  C1, at the temperature \<open>-1.0\<close>: \<open>MAX31855.calc_adc\<close> returns \<open>-3 << 18 = -786432\<close>,
  and decoding that value returns \<open>-2047.5\<close>; MAX6675 encodes to \<open>-24\<close> and decodes
  that to \<open>-2047.5\<close>, MAX31856 encodes to \<open>-4064\<close> and decodes that to \<open>-2047.015625\<close>.
\<close>

theorem roundtrip_minus_one:
  "MAX31855_calc_adc (- 1) = Inr (- 786432)
   \<and> MAX31855_calc_temp (- 786432) = Inr (- 2047.5)
   \<and> MAX31856_calc_adc (- 1) = Inr (- 4064)
   \<and> MAX31856_calc_temp (- 4064) = - 2047.015625
   \<and> MAX6675_calc_adc (- 1) = Inr (- 24)
   \<and> MAX6675_calc_temp (- 24) = Inr (- 2047.5)"
  by (simp add: MAX31855_calc_temp_def MAX31855_calc_adc_def MAX31855_SCALE_def
      MAX31855_MULT_def MAX31856_calc_temp_def MAX31856_calc_adc_def MAX31856_SCALE_def
      MAX31856_MULT_def MAX6675_calc_temp_def MAX6675_calc_adc_def MAX6675_SCALE_def
      MAX6675_MULT_def fl_Finite float_op_Finite py_int_def py_trunc_def Let_def)


subsection \<open>Range configuration\<close>

lemma abs_mult_bound:
  fixes a b :: real
  assumes "\<bar>a\<bar> \<le> x" and "\<bar>b\<bar> \<le> y"
  shows "\<bar>a * b\<bar> \<le> x * y"
proof -
  have "\<bar>a\<bar> * \<bar>b\<bar> \<le> x * y"
    using assms by (intro mult_mono) simp_all
  then show ?thesis by (simp add: abs_mult)
qed

lemma abs_div_bound:
  fixes a b :: real
  assumes "\<bar>a\<bar> \<le> x" and "0 < l" and "l \<le> b"
  shows "\<bar>a / b\<bar> \<le> x / l"
proof -
  have "\<bar>a\<bar> / b \<le> x / l"
    using assms by (intro frac_le) simp_all
  with assms show ?thesis by simp
qed

lemma abs_add_bound:
  fixes a b :: real
  shows "\<bar>a\<bar> \<le> x \<Longrightarrow> \<bar>b\<bar> \<le> y \<Longrightarrow> \<bar>a + b\<bar> \<le> x + y"
  by linarith

lemma abs_diff_bound:
  fixes a b :: real
  shows "\<bar>a\<bar> \<le> x \<Longrightarrow> \<bar>b\<bar> \<le> y \<Longrightarrow> \<bar>a - b\<bar> \<le> x + y"
  by linarith

lemma abs_neg_bound:
  fixes a :: real
  shows "\<bar>a\<bar> \<le> x \<Longrightarrow> \<bar>(- 1) * a\<bar> \<le> x"
  by simp

lemma finite_of_bound:
  assumes "\<bar>f x\<bar> \<le> y" and "y \<le> 10 ^ 60"
  shows "float_op f (Finite x) = Finite (f x)"
  using assms by (intro float_op_Finite) linarith

lemma MAX31865_calc_adc_in_range:
  assumes n0: "0 < rtd_nominal_r self" and n9: "rtd_nominal_r self \<le> 10 ^ 9"
    and ref: "1 / 10 ^ 9 \<le> reference_r self" and T: "\<bar>temp\<bar> \<le> 10 ^ 9"
  shows "\<exists>a. MAX31865_calc_adc self temp = Inr a"
proof -
  let ?n = "real_of_int (rtd_nominal_r self)"
  let ?r1 = "temp * (2 * ?n * VAL_B)"
  let ?r2 = "?r1 + (?n * VAL_A)"
  let ?r3 = "?r2 ^ 2"
  let ?r4 = "?r3 - (?n * ?n * VAL_A * VAL_A)"
  let ?r5 = "(- 1) * ?r4"
  let ?r6 = "?r5 / (4 * ?n * VAL_B)"
  let ?r7 = "(- 1) * ?r6"
  let ?r8 = "?r7 + ?n"
  let ?r9 = "?r8 * VAL_ADC_MAX"
  let ?r10 = "?r9 / reference_r self"
  let ?r11 = "?r10 + 0.5"
  have n: "1 \<le> ?n" "\<bar>?n\<bar> \<le> 10 ^ 9"
    using n0 n9 by simp_all
  have A: "\<bar>VAL_A\<bar> \<le> 1 / 100"
    by (simp add: VAL_A_def)
  have B: "0 \<le> VAL_B" "\<bar>VAL_B\<bar> \<le> 1 / 10 ^ 6" "1 / 10 ^ 6 \<le> 4 * VAL_B"
    by (simp_all add: VAL_B_def)
  have two: "\<bar>2::real\<bar> \<le> 2"
    by simp
  have nB: "\<bar>2 * ?n * VAL_B\<bar> \<le> 2 * 10 ^ 9 * (1 / 10 ^ 6)"
    by (rule abs_mult_bound [OF abs_mult_bound [OF two n(2)] B(2)])
  have b1: "\<bar>?r1\<bar> \<le> 10 ^ 9 * (2 * 10 ^ 9 * (1 / 10 ^ 6))"
    by (rule abs_mult_bound [OF T nB])
  have nA: "\<bar>?n * VAL_A\<bar> \<le> 10 ^ 9 * (1 / 100)"
    by (rule abs_mult_bound [OF n(2) A])
  have b2: "\<bar>?r2\<bar> \<le> 10 ^ 9 * (2 * 10 ^ 9 * (1 / 10 ^ 6)) + 10 ^ 9 * (1 / 100)"
    by (rule abs_add_bound [OF b1 nA])
  then have b2': "\<bar>?r2\<bar> \<le> 10 ^ 14"
    by (rule order_trans) simp
  have "\<bar>?r2 * ?r2\<bar> \<le> 10 ^ 14 * 10 ^ 14"
    by (rule abs_mult_bound [OF b2' b2'])
  then have b3: "\<bar>?r3\<bar> \<le> 10 ^ 14 * 10 ^ 14"
    by (simp only: power2_eq_square)
  have "\<bar>(?n * VAL_A) * (?n * VAL_A)\<bar> \<le> (10 ^ 9 * (1 / 100)) * (10 ^ 9 * (1 / 100))"
    by (rule abs_mult_bound [OF nA nA])
  moreover have "(?n * VAL_A) * (?n * VAL_A) = ?n * ?n * VAL_A * VAL_A"
    by (simp add: mult_ac)
  ultimately have nnAA: "\<bar>?n * ?n * VAL_A * VAL_A\<bar> \<le> (10 ^ 9 * (1 / 100)) * (10 ^ 9 * (1 / 100))"
    by (simp only:)
  have b4: "\<bar>?r4\<bar> \<le> 10 ^ 14 * 10 ^ 14 + (10 ^ 9 * (1 / 100)) * (10 ^ 9 * (1 / 100))"
    by (rule abs_diff_bound [OF b3 nnAA])
  then have b4': "\<bar>?r4\<bar> \<le> 10 ^ 29"
    by (rule order_trans) simp
  have b5: "\<bar>?r5\<bar> \<le> 10 ^ 29"
    by (rule abs_neg_bound [OF b4'])
  have d: "1 / 10 ^ 6 \<le> 4 * ?n * VAL_B"
  proof -
    have "4 * VAL_B * 1 \<le> 4 * VAL_B * ?n"
      using n(1) B(1) by (intro mult_left_mono) simp_all
    moreover have "4 * VAL_B * ?n = 4 * ?n * VAL_B"
      by simp
    ultimately show ?thesis
      using B(3) by linarith
  qed
  have b6: "\<bar>?r6\<bar> \<le> 10 ^ 29 / (1 / 10 ^ 6)"
    by (rule abs_div_bound [OF b5 _ d]) simp
  have b7: "\<bar>?r7\<bar> \<le> 10 ^ 29 / (1 / 10 ^ 6)"
    by (rule abs_neg_bound [OF b6])
  have b8: "\<bar>?r8\<bar> \<le> 10 ^ 29 / (1 / 10 ^ 6) + 10 ^ 9"
    by (rule abs_add_bound [OF b7 n(2)])
  have M: "\<bar>VAL_ADC_MAX\<bar> \<le> 32768"
    by (simp add: VAL_ADC_MAX_def)
  have b9: "\<bar>?r9\<bar> \<le> (10 ^ 29 / (1 / 10 ^ 6) + 10 ^ 9) * 32768"
    by (rule abs_mult_bound [OF b8 M])
  have b10: "\<bar>?r10\<bar> \<le> (10 ^ 29 / (1 / 10 ^ 6) + 10 ^ 9) * 32768 / (1 / 10 ^ 9)"
    by (rule abs_div_bound [OF b9 _ ref]) simp
  have half: "\<bar>0.5::real\<bar> \<le> 1"
    by simp
  have b11: "\<bar>?r11\<bar> \<le> (10 ^ 29 / (1 / 10 ^ 6) + 10 ^ 9) * 32768 / (1 / 10 ^ 9) + 1"
    by (rule abs_add_bound [OF b10 half])
  have e1: "fl ?r1 = Finite ?r1"
    by (rule fl_Finite, rule order_trans [OF b1]) simp
  have e2: "float_op (\<lambda>r. r + (?n * VAL_A)) (Finite ?r1) = Finite ?r2"
    by (rule finite_of_bound [of "\<lambda>r. r + (?n * VAL_A)", OF b2]) simp
  have "\<not> float_overflow ?r3"
    by (rule not_float_overflow, rule order_trans [OF b3]) simp
  then have e3: "py_pow (Finite ?r2) 2 = Inr (Finite ?r3)"
    by (simp only: py_pow_def pyfloat.case if_False)
  have e4: "float_op (\<lambda>r. r - (?n * ?n * VAL_A * VAL_A)) (Finite ?r3) = Finite ?r4"
    by (rule finite_of_bound [of "\<lambda>r. r - (?n * ?n * VAL_A * VAL_A)", OF b4]) simp
  have e5: "float_op (\<lambda>r. (- 1) * r) (Finite ?r4) = Finite ?r5"
    by (rule finite_of_bound [of "\<lambda>r. (- 1) * r", OF b5]) simp
  have e6: "py_fdiv (Finite ?r5) (4 * ?n * VAL_B) = Inr (Finite ?r6)"
  proof -
    have "(0::real) < 1 / 10 ^ 6" by simp
    from this d have "0 < 4 * ?n * VAL_B" by (rule less_le_trans)
    then have "4 * ?n * VAL_B \<noteq> 0" by (rule less_imp_neq [symmetric])
    moreover have "float_op (\<lambda>x. x / (4 * ?n * VAL_B)) (Finite ?r5) = Finite ?r6"
      by (rule finite_of_bound [of "\<lambda>x. x / (4 * ?n * VAL_B)", OF b6]) simp
    ultimately show ?thesis by (simp only: py_fdiv_def if_False)
  qed
  have e7: "float_op (\<lambda>r. (- 1) * r) (Finite ?r6) = Finite ?r7"
    by (rule finite_of_bound [of "\<lambda>r. (- 1) * r", OF b7]) simp
  have e8: "float_op (\<lambda>r. r + ?n) (Finite ?r7) = Finite ?r8"
    by (rule finite_of_bound [of "\<lambda>r. r + ?n", OF b8]) simp
  have e9: "float_op (\<lambda>r. r * VAL_ADC_MAX) (Finite ?r8) = Finite ?r9"
    by (rule finite_of_bound [of "\<lambda>r. r * VAL_ADC_MAX", OF b9]) simp
  have e10: "py_fdiv (Finite ?r9) (reference_r self) = Inr (Finite ?r10)"
  proof -
    from ref have "reference_r self \<noteq> 0" by auto
    moreover have "float_op (\<lambda>x. x / reference_r self) (Finite ?r9) = Finite ?r10"
      by (rule finite_of_bound [of "\<lambda>x. x / reference_r self", OF b10]) simp
    ultimately show ?thesis by (simp only: py_fdiv_def if_False)
  qed
  have e11: "float_op (\<lambda>r. r + 0.5) (Finite ?r10) = Finite ?r11"
    by (rule finite_of_bound [of "\<lambda>r. r + 0.5", OF b11]) simp
  show ?thesis
    unfolding MAX31865_calc_adc_def Let_def e1 e2 e3 sum.case e4 e5 e6 e7 e8 e9 e10 e11
    by (simp add: py_int_def)
qed


lemma calc_adc_returns: "encode_in_range c temp \<Longrightarrow> \<exists>a. calc_adc c temp = Inr a"
proof (cases c)
  case MAX31855
  assume "encode_in_range c temp"
  with MAX31855 have "\<bar>temp\<bar> \<le> 10 ^ 9" by simp
  from MAX31855_calc_adc_finite [OF this] MAX31855 show ?thesis by simp
next
  case (MAX31856 cfg)
  assume "encode_in_range c temp"
  with MAX31856 have "\<bar>temp\<bar> \<le> 10 ^ 9" by simp
  from MAX31856_calc_adc_finite [OF this] MAX31856 show ?thesis by simp
next
  case (MAX31865 cfg)
  assume "encode_in_range c temp"
  with MAX31865 show ?thesis
    by (simp add: MAX31865_calc_adc_in_range)
next
  case MAX6675
  assume "encode_in_range c temp"
  with MAX6675 have "\<bar>temp\<bar> \<le> 10 ^ 9" by simp
  from MAX6675_calc_adc_finite [OF this] MAX6675 show ?thesis by simp
qed

text \<open>
  C5. For every chip and every pair of temperatures that can be encoded, in any order
  and of any sign, \<open>setup_minmax\<close> returns, and stores the smaller of the two encoded
  values as \<open>min_sample_value\<close> and the larger as \<open>max_sample_value\<close>.
\<close>

theorem setup_minmax_ordered:
  assumes "encode_in_range (kind s) min_temp" and "encode_in_range (kind s) max_temp"
  shows "\<exists>a b s'. calc_adc (kind s) min_temp = Inr a \<and> calc_adc (kind s) max_temp = Inr b
     \<and> setup_minmax s min_temp max_temp = Inr s'
     \<and> s' = s\<lparr>min_sample_value := min a b, max_sample_value := max a b\<rparr>
     \<and> min_sample_value s' \<le> max_sample_value s'"
proof -
  from assms(1) obtain a where a: "calc_adc (kind s) min_temp = Inr a"
    using calc_adc_returns by blast
  from assms(2) obtain b where b: "calc_adc (kind s) max_temp = Inr b"
    using calc_adc_returns by blast
  have "setup_minmax s min_temp max_temp =
          Inr (s\<lparr>min_sample_value := min a b, max_sample_value := max a b\<rparr>)"
    by (simp add: setup_minmax_def a b Let_def)
  with a b show ?thesis by simp
qed

lemma MAX31865_calc_adc_pt100:
  "MAX31865_calc_adc pt100 100 = Inr 21286" "MAX31865_calc_adc pt100 0 = Inr 15240"
  by (simp_all add: pt100_def MAX31865_calc_adc_def py_fdiv_def py_pow_Finite py_int_def
      py_trunc_def fl_Finite float_op_Finite VAL_A_def VAL_B_def VAL_ADC_MAX_def
      Let_def power2_eq_square)

theorem setup_minmax_ordered_witness:
  "encode_in_range (kind (demo_sensor (MAX31865 pt100))) 100
   \<and> encode_in_range (kind (demo_sensor (MAX31865 pt100))) 0
   \<and> setup_minmax (demo_sensor (MAX31865 pt100)) 100 0 =
       Inr ((demo_sensor (MAX31865 pt100))\<lparr>min_sample_value := 15240, max_sample_value := 21286\<rparr>)"
proof -
  let ?s = "demo_sensor (MAX31865 pt100)"
  have k: "kind ?s = MAX31865 pt100"
    by (simp add: demo_sensor_def)
  have r: "encode_in_range (kind ?s) 100" "encode_in_range (kind ?s) 0"
    by (simp_all add: k) (simp_all add: pt100_def)
  from setup_minmax_ordered [OF r] MAX31865_calc_adc_pt100 r show ?thesis
    by (auto simp: k)
qed

text \<open>
  Beyond the range the encoder raises, and \<open>setup_minmax\<close> with it: nothing is stored.
\<close>

lemma setup_minmax_overflow:
  "setup_minmax (demo_sensor MAX31855) 0 (10 ^ 308) = Inl OverflowError"
proof -
  have k: "kind (demo_sensor MAX31855) = MAX31855"
    by (simp add: demo_sensor_def)
  have a: "calc_adc MAX31855 0 = Inr 0"
    by (simp add: MAX31855_calc_adc_finite py_trunc_def)
  have b: "calc_adc MAX31855 (10 ^ 308) = Inl OverflowError"
    by (simp only: calc_adc.simps MAX31855_calc_adc_overflow)
  show ?thesis
    by (simp only: setup_minmax_def k a b sum.case)
qed


subsection \<open>The round trip on non-negative temperatures\<close>

text \<open>
  For the three thermocouple chips, a temperature \<open>T \<ge> 0\<close> whose code stays below the
  sign-bit mask is encoded and decoded to within half a multiplier of \<open>T\<close>. The round
  trip fails only below zero.
\<close>

lemma spec_magnitude_below_sign:
  fixes n :: int
  assumes "0 \<le> n" and "n < 2 ^ k"
  shows "spec_magnitude (2 ^ k) (drop_bit s (push_bit s n)) = n"
proof -
  from assms have "n div 2 ^ k = 0"
    by simp
  then have "\<not> bit n k"
    by (simp add: bit_iff_odd)
  then have "n AND 2 ^ k = 0"
    by (simp add: and_exp_eq_0_iff_not_bit)
  moreover have "drop_bit s (push_bit s n) = n"
    by (simp add: drop_bit_push_bit_int)
  ultimately show ?thesis
    by (simp add: spec_magnitude_def)
qed

lemma push_bit_low_bits_clear:
  fixes n :: int
  assumes "3 \<le> s"
  shows "push_bit s n AND 7 = 0"
proof -
  have "(7::int) = mask 3"
    by (simp add: mask_eq_exp_minus_1)
  then have "push_bit s n AND 7 = take_bit 3 (push_bit s n)"
    by (simp add: take_bit_eq_mask)
  also have "\<dots> = 0"
    using assms by (simp add: take_bit_push_bit)
  finally show ?thesis .
qed

lemma round_half_error:
  fixes x :: real
  shows "\<bar>real_of_int \<lfloor>x + 1 / 2\<rfloor> - x\<bar> \<le> 1 / 2"
  by linarith

lemma scaled_round_half_error:
  fixes T m :: real
  assumes "0 < m"
  shows "\<bar>m * real_of_int \<lfloor>T / m + 1 / 2\<rfloor> - T\<bar> \<le> m / 2"
proof -
  have "m * real_of_int \<lfloor>T / m + 1 / 2\<rfloor> - T = m * (real_of_int \<lfloor>T / m + 1 / 2\<rfloor> - T / m)"
    using assms by (simp add: algebra_simps)
  then have "\<bar>m * real_of_int \<lfloor>T / m + 1 / 2\<rfloor> - T\<bar> = m * \<bar>real_of_int \<lfloor>T / m + 1 / 2\<rfloor> - T / m\<bar>"
    using assms by (simp add: abs_mult)
  also have "\<dots> \<le> m * (1 / 2)"
    using assms round_half_error [of "T / m"] by (intro mult_left_mono) simp_all
  finally show ?thesis by simp
qed

lemma quantize_nonneg:
  assumes "0 \<le> x" and "x + 1 / 2 < real_of_int m"
  shows "py_trunc (x + 0.5) = \<lfloor>x + 1 / 2\<rfloor>" and "0 \<le> \<lfloor>x + 1 / 2\<rfloor>" and "\<lfloor>x + 1 / 2\<rfloor> < m"
  using assms by (simp_all add: py_trunc_def floor_less_iff)


text \<open>
  Encoding then decoding, for \<open>0 \<le> T\<close> and \<open>T / mult + 1/2\<close> below the sign-bit mask.
\<close>

lemma thermocouple_roundtrip_nonneg:
  assumes tab: "spec_table c = Some (shift, sign_mask, mult)"
    and pos: "0 \<le> T"
    and fit: "T / mult + 1 / 2 < real_of_int sign_mask"
  shows "\<exists>a t. calc_adc c T = Inr a \<and> calc_temp c a = Inr t \<and> \<bar>t - T\<bar> \<le> mult / 2"
proof (cases c)
  case MAX31855
  with tab have p: "shift = 18" "sign_mask = 0x2000" "mult = 0.25"
    by simp_all
  let ?n = "\<lfloor>T / 0.25 + 1 / 2\<rfloor>"
  from pos have x: "0 \<le> T / 0.25" by simp
  from quantize_nonneg [OF x, of 8192] fit p
  have q: "py_trunc (T / 0.25 + 0.5) = ?n" "0 \<le> ?n" "?n < 2 ^ 13"
    by simp_all
  have "\<bar>T\<bar> \<le> 10 ^ 9"
    using pos fit p by simp
  then have a: "MAX31855_calc_adc T = Inr (push_bit 18 ?n)"
    using q(1) by (simp add: MAX31855_calc_adc_finite)
  have "MAX31855_calc_temp (push_bit 18 ?n) =
          Inr (0.25 * real_of_int (spec_magnitude (2 ^ 13) (drop_bit 18 (push_bit 18 ?n))))"
    using MAX31855_calc_temp_clean [OF push_bit_low_bits_clear, of 18 ?n] by simp
  then have t: "MAX31855_calc_temp (push_bit 18 ?n) = Inr (0.25 * real_of_int ?n)"
    by (simp only: spec_magnitude_below_sign [OF q(2,3)])
  have e: "\<bar>0.25 * real_of_int ?n - T\<bar> \<le> mult / 2"
    unfolding p(3) by (rule scaled_round_half_error) simp
  from a MAX31855 have "calc_adc c T = Inr (push_bit 18 ?n)"
    by simp
  moreover from t MAX31855 have "calc_temp c (push_bit 18 ?n) = Inr (0.25 * real_of_int ?n)"
    by simp
  ultimately show ?thesis
    using e by blast
next
  case (MAX31856 cfg)
  with tab have p: "shift = 5" "sign_mask = 0x40000" "mult = 0.0078125"
    by simp_all
  let ?n = "\<lfloor>T / 0.0078125 + 1 / 2\<rfloor>"
  from pos have x: "0 \<le> T / 0.0078125" by simp
  from quantize_nonneg [OF x, of 262144] fit p
  have q: "py_trunc (T / 0.0078125 + 0.5) = ?n" "0 \<le> ?n" "?n < 2 ^ 18"
    by simp_all
  have "\<bar>T\<bar> \<le> 10 ^ 9"
    using pos fit p by simp
  then have a: "MAX31856_calc_adc T = Inr (push_bit 5 ?n)"
    using q(1) by (simp add: MAX31856_calc_adc_finite)
  have "MAX31856_calc_temp (push_bit 5 ?n) =
          0.0078125 * real_of_int (spec_magnitude (2 ^ 18) (drop_bit 5 (push_bit 5 ?n)))"
    using MAX31856_calc_temp_eq [of "push_bit 5 ?n"] by simp
  then have t: "MAX31856_calc_temp (push_bit 5 ?n) = 0.0078125 * real_of_int ?n"
    by (simp only: spec_magnitude_below_sign [OF q(2,3)])
  have e: "\<bar>0.0078125 * real_of_int ?n - T\<bar> \<le> mult / 2"
    unfolding p(3) by (rule scaled_round_half_error) simp
  from a MAX31856 have "calc_adc c T = Inr (push_bit 5 ?n)"
    by simp
  moreover from t MAX31856 have "calc_temp c (push_bit 5 ?n) = Inr (0.0078125 * real_of_int ?n)"
    by simp
  ultimately show ?thesis
    using e by blast
next
  case (MAX31865 cfg)
  with tab show ?thesis by simp
next
  case MAX6675
  with tab have p: "shift = 3" "sign_mask = 0x2000" "mult = 0.25"
    by simp_all
  let ?n = "\<lfloor>T / 0.25 + 1 / 2\<rfloor>"
  from pos have x: "0 \<le> T / 0.25" by simp
  from quantize_nonneg [OF x, of 8192] fit p
  have q: "py_trunc (T / 0.25 + 0.5) = ?n" "0 \<le> ?n" "?n < 2 ^ 13"
    by simp_all
  have "\<bar>T\<bar> \<le> 10 ^ 9"
    using pos fit p by simp
  then have a: "MAX6675_calc_adc T = Inr (push_bit 3 ?n)"
    using q(1) by (simp add: MAX6675_calc_adc_finite)
  have "push_bit 3 ?n AND 7 = 0"
    by (rule push_bit_low_bits_clear) simp
  then have "push_bit 3 ?n AND 6 = 0"
    by (simp add: and_7_eq_0 and_6_eq_0)
  from MAX6675_calc_temp_clean [OF this]
  have "MAX6675_calc_temp (push_bit 3 ?n) =
          Inr (0.25 * real_of_int (spec_magnitude (2 ^ 13) (drop_bit 3 (push_bit 3 ?n))))"
    by simp
  then have t: "MAX6675_calc_temp (push_bit 3 ?n) = Inr (0.25 * real_of_int ?n)"
    by (simp only: spec_magnitude_below_sign [OF q(2,3)])
  have e: "\<bar>0.25 * real_of_int ?n - T\<bar> \<le> mult / 2"
    unfolding p(3) by (rule scaled_round_half_error) simp
  from a MAX6675 have "calc_adc c T = Inr (push_bit 3 ?n)"
    by simp
  moreover from t MAX6675 have "calc_temp c (push_bit 3 ?n) = Inr (0.25 * real_of_int ?n)"
    by simp
  ultimately show ?thesis
    using e by blast
qed

end
